theory Spec2Isabelle
  imports Complex_Main
begin

section \<open>Workflow notification for Slack: the model of \<open>src/main.ts\<close>\<close>

text \<open>
  The action reads one workflow run, its commit and its jobs, composes one Slack payload and
  sends it. The definitions below follow \<open>src/main.ts\<close> function by function and keep its
  names. JavaScript strings are modelled as \<open>string\<close> (byte lists; the three status icons are
  written as their UTF-8 bytes), JavaScript numbers that hold whole values as \<open>int\<close>, and the
  fractional \<open>delta\<close> of \<open>computeDuration\<close> as \<open>rat\<close>. A \<open>Date\<close> is its time value, the
  whole number of milliseconds that \<open>valueOf\<close> returns; an invalid date (time value NaN) is
  outside the model. The source computes in double precision; the model computes the
  difference and the quotients exactly. It stands for the source where both time values
  are valid (\<open>validDate\<close>) and lie at most \<open>2^53\<close> milliseconds apart: there the
  difference is exact and no rounding moves a quotient across a whole number. Farther
  apart the two can differ, so every statement about what the formatter returns is made
  inside this range.
\<close>

subsection \<open>JavaScript primitives used by the source\<close>

text \<open>Template-literal conversion \<open>`${value}`\<close> of a whole number: decimal digits, with a
  leading minus sign for a negative value.\<close>

definition digit :: "nat \<Rightarrow> char" where
  "digit k = ''0123456789'' ! k"

fun decimal :: "nat \<Rightarrow> string" where
  "decimal n = (if n < 10 then [digit n] else decimal (n div 10) @ [digit (n mod 10)])"

declare decimal.simps [simp del]

definition Number_toString :: "int \<Rightarrow> string" where
  "Number_toString v = (if v < 0 then CHR ''-'' # decimal (nat (- v)) else decimal (nat v))"

text \<open>\<open>String.prototype.trim\<close>: white space and line terminators are removed at both ends.
  Of the characters JavaScript strips, the one-byte ones are tab, line feed, vertical tab,
  form feed, carriage return and space.\<close>

definition isWhiteSpace :: "char \<Rightarrow> bool" where
  "isWhiteSpace c = (c \<in> set [CHR 0x09, CHR 0x0A, CHR 0x0B, CHR 0x0C, CHR 0x0D, CHR '' ''])"

definition trim :: "string \<Rightarrow> string" where
  "trim s = rev (dropWhile isWhiteSpace (rev (dropWhile isWhiteSpace s)))"

text \<open>The remainder operator \<open>%\<close> truncates: the result has the sign of the dividend.
  \<open>Number_rem\<close> is \<open>%\<close> on whole numbers, \<open>Number_fmod\<close> is \<open>%\<close> on a fractional dividend.\<close>

definition Number_rem :: "int \<Rightarrow> int \<Rightarrow> int" where
  "Number_rem a b = sgn a * (\<bar>a\<bar> mod \<bar>b\<bar>)"

definition Math_trunc :: "rat \<Rightarrow> int" where
  "Math_trunc q = (if q < 0 then \<lceil>q\<rceil> else \<lfloor>q\<rfloor>)"

definition Number_fmod :: "rat \<Rightarrow> rat \<Rightarrow> rat" where
  "Number_fmod x m = x - m * of_int (Math_trunc (x / m))"

subsection \<open>\<open>computeDuration\<close>\<close>

text \<open>The inner arrow function \<open>format_duration\<close>.\<close>

definition format_duration :: "int \<Rightarrow> string \<Rightarrow> bool \<Rightarrow> string" where
  "format_duration v txt hide_on_zero =
     (if v \<le> 0 \<and> hide_on_zero then '''' else Number_toString v @ txt @ '' '')"

text \<open>\<open>computeDuration({start, end})\<close>, statement by statement. \<open>delta\<close> is reassigned three
  times in the source; the model names the successive values \<open>delta0\<close> to \<open>delta3\<close>. The call
  of \<open>trim\<close> applies to the seconds section only, as in the source, where the method call
  binds tighter than \<open>+\<close>.\<close>

definition computeDuration :: "int \<Rightarrow> int \<Rightarrow> string" where
  "computeDuration start end' =
     (let duration = end' - start;
          delta0 = (of_int duration :: rat) / 1000;
          days = \<lfloor>delta0 / 86400\<rfloor>;
          delta1 = delta0 - of_int days * 86400;
          hours = Number_rem \<lfloor>delta1 / 3600\<rfloor> 24;
          delta2 = delta1 - of_int hours * 3600;
          minutes = Number_rem \<lfloor>delta2 / 60\<rfloor> 60;
          delta3 = delta2 - of_int minutes * 60;
          seconds = \<lfloor>Number_fmod delta3 60\<rfloor>
      in format_duration days ''d'' True @
         format_duration hours ''h'' True @
         format_duration minutes ''m'' True @
         trim (format_duration seconds ''s'' False))"

text \<open>The time value of a valid \<open>Date\<close> is at most 8.64e15 milliseconds from the epoch;
  \<open>maxSafeDuration\<close> is \<open>2^53\<close>, the distance up to which the model is taken to stand for
  the double-precision computation of the source.\<close>

definition validDate :: "int \<Rightarrow> bool" where
  "validDate t = (\<bar>t\<bar> \<le> 8640000000000000)"

definition maxSafeDuration :: int where
  "maxSafeDuration = 9007199254740992"

subsection \<open>Data supplied by the GitHub API and the Actions runtime\<close>

text \<open>One element of \<open>jobsResponse.jobs\<close>. \<open>started_at\<close> and \<open>completed_at\<close> hold the time
  values of \<open>new Date(job.started_at)\<close> and \<open>new Date(job.completed_at)\<close>.\<close>

record job =
  job_name :: string
  job_html_url :: string
  started_at :: int
  completed_at :: int
  status :: string
  conclusion :: string

text \<open>One element of \<open>workflowRun.pull_requests\<close>, with the fields of the pull-request type
  the source casts it to.\<close>

record pull_request =
  pr_number :: int
  pr_title :: string
  head_ref :: string
  base_ref :: string

record workflow_run =
  run_html_url :: string
  run_number :: int
  repository_html_url :: string
  repository_full_name :: string
  head_branch :: string
  created_at :: int
  updated_at :: int
  pull_requests :: "pull_request list"

record commit =
  commit_html_url :: string
  sha :: string

text \<open>The parts of \<open>context\<close> and \<open>process.env\<close> that \<open>main\<close> reads. \<open>payload_pull_request\<close> is
  \<open>context.payload.pull_request\<close>: \<open>None\<close> when the event carries no pull request, otherwise
  its \<open>title\<close> property, itself \<open>None\<close> when undefined or null.\<close>

record action_context =
  eventName :: string
  workflow :: string
  payload_pull_request :: "string option option"
  GITHUB_ACTOR :: "string option"

datatype ResultColors = Good | Warning | Danger

fun ResultColors_value :: "ResultColors \<Rightarrow> string" where
  "ResultColors_value Good = ''good''"
| "ResultColors_value Warning = ''warning''"
| "ResultColors_value Danger = ''danger''"

text \<open>One element of \<open>MessageAttachment['fields']\<close>.\<close>

record field =
  field_title :: string
  field_short :: bool
  field_value :: string

subsection \<open>\<open>main\<close>: filtering, colour and job fields\<close>

definition completedJobs :: "job list \<Rightarrow> job list" where
  "completedJobs jobs =
     filter (\<lambda>job. status job = ''completed'' \<and> conclusion job \<noteq> ''skipped'') jobs"

text \<open>The \<open>if\<close> / \<open>else if\<close> / \<open>else\<close> chain of lines 91 to 106. It assigns \<open>resultColor\<close> and,
  in two branches, \<open>jobFields\<close>; the declared but unassigned \<open>jobFields\<close> is \<open>None\<close>.
  The argument is the already filtered list.\<close>

definition colorAndFields :: "string \<Rightarrow> job list \<Rightarrow> ResultColors \<times> field list option" where
  "colorAndFields includeJobs completed =
     (if list_all (\<lambda>job. conclusion job \<in> set [''success'', ''skipped'']) completed
      then (Good, if includeJobs = ''on-failure'' then Some [] else None)
      else if list_ex (\<lambda>job. conclusion job = ''cancelled'') completed
      then (Warning, if includeJobs = ''on-failure'' then Some [] else None)
      else (Danger, None))"

definition resultColor :: "string \<Rightarrow> job list \<Rightarrow> ResultColors" where
  "resultColor includeJobs jobs = fst (colorAndFields includeJobs (completedJobs jobs))"

text \<open>The lookup table \<open>statusIcons\<close> with its three own properties: check mark U+2713,
  enclosing circle backslash U+20E0 and ballot X U+2717.\<close>

definition check_mark :: string where
  "check_mark = [CHR 0xE2, CHR 0x9C, CHR 0x93]"

definition circle_backslash :: string where
  "circle_backslash = [CHR 0xE2, CHR 0x83, CHR 0xA0]"

definition ballot_x :: string where
  "ballot_x = [CHR 0xE2, CHR 0x9C, CHR 0x97]"

definition statusIcons :: "(string \<times> string) list" where
  "statusIcons =
     [(''success'', check_mark), (''cancelled'', circle_backslash), (''skipped'', ballot_x)]"

text \<open>\<open>statusIcons\<close> is an ordinary object, so a property read that finds no own property
  goes on to \<open>Object.prototype\<close>. \<open>Object_prototype\<close> lists the string-named properties
  found there, each with the text that the template literal of line 130 makes of its
  value: eleven built-in functions, printed by Node as \<open>function name() { [native code] }\<close>,
  and \<open>__proto__\<close>, whose value is \<open>Object.prototype\<close> itself.\<close>

definition nativeFunction :: "string \<Rightarrow> string" where
  "nativeFunction f = ''function '' @ f @ ''() { [native code] }''"

definition Object_prototype :: "(string \<times> string) list" where
  "Object_prototype =
     [(''constructor'', nativeFunction ''Object''),
      (''__defineGetter__'', nativeFunction ''__defineGetter__''),
      (''__defineSetter__'', nativeFunction ''__defineSetter__''),
      (''hasOwnProperty'', nativeFunction ''hasOwnProperty''),
      (''__lookupGetter__'', nativeFunction ''__lookupGetter__''),
      (''__lookupSetter__'', nativeFunction ''__lookupSetter__''),
      (''isPrototypeOf'', nativeFunction ''isPrototypeOf''),
      (''propertyIsEnumerable'', nativeFunction ''propertyIsEnumerable''),
      (''toString'', nativeFunction ''toString''),
      (''valueOf'', nativeFunction ''valueOf''),
      (''__proto__'', ''[object Object]''),
      (''toLocaleString'', nativeFunction ''toLocaleString'')]"

definition inheritedNames :: "string list" where
  "inheritedNames = map fst Object_prototype"

text \<open>\<open>statusIcons[job.conclusion]\<close>: an own property first, an inherited one otherwise,
  \<open>None\<close> for undefined.\<close>

definition statusIcons_get :: "string \<Rightarrow> string option" where
  "statusIcons_get c = (case map_of statusIcons c of
                          Some icon \<Rightarrow> Some icon
                        | None \<Rightarrow> map_of Object_prototype c)"

text \<open>\<open>jobIcon\<close> is \<open>statusIcons[job.conclusion] || ballot X\<close>, as the text it contributes to
  the entry: undefined and the empty string give the ballot X, every other value is truthy
  and is kept.\<close>

definition jobIcon :: "string \<Rightarrow> string" where
  "jobIcon c = (case statusIcons_get c of
                  None \<Rightarrow> ballot_x
                | Some found \<Rightarrow> if found = '''' then ballot_x else found)"

text \<open>The arrow function mapped over \<open>completedJobs\<close> at lines 113 to 132.\<close>

definition jobField :: "job \<Rightarrow> field" where
  "jobField job =
     (let jobProcessingTime = computeDuration (started_at job) (completed_at job)
      in \<lparr> field_title = '''',
           field_short = True,
           field_value = jobIcon (conclusion job) @ '' <'' @ job_html_url job @ ''|'' @
                         job_name job @ ''> ('' @ jobProcessingTime @ '')'' \<rparr>)"

text \<open>\<open>jobFields\<close> after line 132: the assignment under \<open>includeJobs === 'false'\<close>, then
  \<open>??=\<close>, which assigns only when \<open>jobFields\<close> is still undefined.\<close>

definition jobFields :: "string \<Rightarrow> job list \<Rightarrow> field list" where
  "jobFields includeJobs jobs =
     (let completed = completedJobs jobs;
          fields0 = snd (colorAndFields includeJobs completed);
          fields1 = (if includeJobs = ''false'' then Some [] else fields0)
      in case fields1 of
           None \<Rightarrow> map jobField completed
         | Some assigned \<Rightarrow> assigned)"

subsection \<open>\<open>main\<close>: title, attachment and payload\<close>

text \<open>The formatting shortcuts of lines 135 to 148. \<open>substring(0, 6)\<close> keeps the first six
  characters of the commit hash, or all of it when it is shorter.\<close>

definition repoUrl :: "workflow_run \<Rightarrow> string" where
  "repoUrl workflowRun =
     ''<'' @ repository_html_url workflowRun @ ''|*'' @ repository_full_name workflowRun @ ''*>''"

definition branchUrl :: "workflow_run \<Rightarrow> string" where
  "branchUrl workflowRun =
     ''<'' @ repository_html_url workflowRun @ ''/tree/'' @ head_branch workflowRun @ ''|'' @
     head_branch workflowRun @ ''>''"

definition workflowRunUrl :: "workflow_run \<Rightarrow> string" where
  "workflowRunUrl workflowRun =
     ''<'' @ run_html_url workflowRun @ ''|#'' @ Number_toString (run_number workflowRun) @ ''>''"

definition commitUrl :: "commit \<Rightarrow> string" where
  "commitUrl c = ''<'' @ commit_html_url c @ ''|'' @ take 6 (sha c) @ '' >''"

definition detailsString :: "action_context \<Rightarrow> workflow_run \<Rightarrow> string" where
  "detailsString ctx workflowRun =
     (let workflowProcessingTime = computeDuration (created_at workflowRun) (updated_at workflowRun)
      in workflow ctx @ '' '' @ workflowRunUrl workflowRun @ '' completed in *'' @
         workflowProcessingTime @ ''*'' @ [CHR 0x0A])"

text \<open>The objects built by the \<open>map\<close> of lines 151 to 158. The link text takes
  \<open>context.payload.pull_request?.title ?? ''\<close>, the title carried by the triggering event.\<close>

record pull_request_string =
  prs_title :: string
  prs_text :: string

definition pullRequests :: "action_context \<Rightarrow> workflow_run \<Rightarrow> pull_request_string list" where
  "pullRequests ctx workflowRun =
     map (\<lambda>pr.
            \<lparr> prs_title =
                ''<'' @ repository_html_url workflowRun @ ''/pull/'' @
                Number_toString (pr_number pr) @ ''|'' @
                (case payload_pull_request ctx of
                   None \<Rightarrow> ''''
                 | Some None \<Rightarrow> ''''
                 | Some (Some t) \<Rightarrow> t) @
                '' #'' @ Number_toString (pr_number pr) @ ''>'',
              prs_text = ''from `'' @ head_ref pr @ ''` to `'' @ base_ref pr @ ''`'' \<rparr>)
         (pull_requests workflowRun)"

text \<open>\<open>title\<close> after line 163: the default of line 145, which ends in a line feed, replaced
  by the title of \<open>pullRequests[0]\<close> when the list is not empty.\<close>

definition title :: "action_context \<Rightarrow> workflow_run \<Rightarrow> commit \<Rightarrow> string" where
  "title ctx workflowRun c =
     (let title0 = eventName ctx @ '' on '' @ branchUrl workflowRun @ '' '' @ commitUrl c @
                   [CHR 0x0A];
          prs = pullRequests ctx workflowRun
      in if 0 < length prs then prs_title (prs ! 0) else title0)"

text \<open>A template literal renders an unset environment variable as \<open>undefined\<close>.\<close>

definition env_text :: "string option \<Rightarrow> string" where
  "env_text v = (case v of None \<Rightarrow> ''undefined'' | Some s \<Rightarrow> s)"

record attachment =
  mrkdwn_in :: "string list"
  color :: string
  author_icon :: string
  author_link :: string
  author_name :: "string option"
  att_title :: string
  att_text :: string
  att_fields :: "field list"
  footer_icon :: string
  footer :: string

definition slackAttachment ::
  "string \<Rightarrow> action_context \<Rightarrow> workflow_run \<Rightarrow> commit \<Rightarrow> job list \<Rightarrow> attachment" where
  "slackAttachment includeJobs ctx workflowRun c jobs =
     \<lparr> mrkdwn_in = [''text''],
       color = ResultColors_value (resultColor includeJobs jobs),
       author_icon = ''https://github.com/'' @ env_text (GITHUB_ACTOR ctx) @ ''.png?size=32'',
       author_link = ''https://github.com/'' @ env_text (GITHUB_ACTOR ctx),
       author_name = GITHUB_ACTOR ctx,
       att_title = title ctx workflowRun c,
       att_text = detailsString ctx workflowRun,
       att_fields = jobFields includeJobs jobs,
       footer_icon = ''https://github.githubassets.com/favicon.ico'',
       footer = repoUrl workflowRun \<rparr>"

text \<open>The object \<open>slack\<close> of lines 49 to 54, as its entries in property order. \<open>getInput\<close> is
  the function of the Actions toolkit: it returns the configured text of an input and the
  empty string for an input that is not set. \<open>x || null\<close> turns the empty string into
  \<open>null\<close>, modelled as \<open>None\<close>.\<close>

definition orNull :: "string \<Rightarrow> string option" where
  "orNull x = (if x = '''' then None else Some x)"

definition slack :: "(string \<Rightarrow> string) \<Rightarrow> (string \<times> string option) list" where
  "slack getInput =
     [(''channel'', orNull (getInput ''channel'')),
      (''username'', orNull (getInput ''name'')),
      (''icon_url'', orNull (getInput ''icon_url'')),
      (''icon_emoji'', orNull (getInput ''icon_emoji''))]"

text \<open>\<open>slack_payload_body\<close>: the attachment list and, spread beside it, the entries of
  \<open>slack\<close> whose value is not \<open>null\<close>. \<open>overrides\<close> lists these top-level properties in
  order; a key that is not listed is not a property of the payload.\<close>

record payload =
  attachments :: "attachment list"
  overrides :: "(string \<times> string) list"

definition nonNullEntries :: "(string \<times> string option) list \<Rightarrow> (string \<times> string) list" where
  "nonNullEntries entries = [(k, v). (k, Some v) \<leftarrow> entries]"

definition slack_payload_body ::
  "(string \<Rightarrow> string) \<Rightarrow> action_context \<Rightarrow> workflow_run \<Rightarrow> commit \<Rightarrow> job list \<Rightarrow> payload" where
  "slack_payload_body getInput ctx workflowRun c jobs =
     \<lparr> attachments = [slackAttachment (getInput ''include_jobs'') ctx workflowRun c jobs],
       overrides = nonNullEntries (slack getInput) \<rparr>"

subsection \<open>\<open>handleError\<close>\<close>

text \<open>The values that can reach the handler: \<open>undefined\<close>, \<open>null\<close>, a string, an \<open>Error\<close>
  with its \<open>name\<close> and \<open>message\<close>, and a plain object with or without a \<open>message\<close> property.\<close>

datatype thrown =
  JUndefined
  | JNull
  | JString string
  | JError string string
  | JObject "string option"

text \<open>Truthiness of the value, its \<open>message\<close> property (\<open>None\<close> for undefined), and its
  conversion to a string in a template literal; for an \<open>Error\<close> that conversion is
  \<open>Error.prototype.toString\<close>.\<close>

fun truthy :: "thrown \<Rightarrow> bool" where
  "truthy JUndefined = False"
| "truthy JNull = False"
| "truthy (JString s) = (s \<noteq> '''')"
| "truthy (JError n m) = True"
| "truthy (JObject m) = True"

fun message :: "thrown \<Rightarrow> string option" where
  "message (JError n m) = Some m"
| "message (JObject m) = m"
| "message _ = None"

fun ToString :: "thrown \<Rightarrow> string" where
  "ToString JUndefined = ''undefined''"
| "ToString JNull = ''null''"
| "ToString (JString s) = s"
| "ToString (JError n m) = (if n = '''' then m else if m = '''' then n else n @ '': '' @ m)"
| "ToString (JObject m) = ''[object Object]''"

text \<open>The calls \<open>handleError\<close> makes on the Actions toolkit, in order.\<close>

datatype core_call = core_error thrown | core_setFailed string

definition handleError :: "thrown \<Rightarrow> core_call list" where
  "handleError err =
     [core_error err,
      (case message err of
         Some m \<Rightarrow>
           if truthy err \<and> m \<noteq> []
           then core_setFailed m
           else core_setFailed (''Unhandled Error: '' @ ToString err)
       | None \<Rightarrow> core_setFailed (''Unhandled Error: '' @ ToString err))]"

subsection \<open>Example data\<close>

text \<open>Five jobs of one run: a success, a failure, a cancellation, a skipped job and a job
  that has not completed; a run without and a run with associated pull requests; a commit;
  the context of a push event; and a configuration that sets the channel only.\<close>

definition job_build :: job where
  "job_build = \<lparr> job_name = ''build'', job_html_url = ''https://github.com/o/r/runs/1'',
                 started_at = 0, completed_at = 65000,
                 status = ''completed'', conclusion = ''success'' \<rparr>"

definition job_test :: job where
  "job_test = \<lparr> job_name = ''test'', job_html_url = ''https://github.com/o/r/runs/2'',
                started_at = 1000, completed_at = 60000,
                status = ''completed'', conclusion = ''failure'' \<rparr>"

definition job_lint :: job where
  "job_lint = \<lparr> job_name = ''lint'', job_html_url = ''https://github.com/o/r/runs/3'',
                started_at = 0, completed_at = 5000,
                status = ''completed'', conclusion = ''cancelled'' \<rparr>"

definition job_docs :: job where
  "job_docs = \<lparr> job_name = ''docs'', job_html_url = ''https://github.com/o/r/runs/4'',
                started_at = 0, completed_at = 0,
                status = ''completed'', conclusion = ''skipped'' \<rparr>"

definition job_notify :: job where
  "job_notify = \<lparr> job_name = ''notify'', job_html_url = ''https://github.com/o/r/runs/5'',
                  started_at = 70000, completed_at = 70000,
                  status = ''in_progress'', conclusion = '''' \<rparr>"

definition pr_seven :: pull_request where
  "pr_seven = \<lparr> pr_number = 7, pr_title = ''Add cache'', head_ref = ''feature'',
                base_ref = ''main'' \<rparr>"

definition pr_nine :: pull_request where
  "pr_nine = \<lparr> pr_number = 9, pr_title = ''Fix typo'', head_ref = ''typo'',
               base_ref = ''main'' \<rparr>"

definition run_plain :: workflow_run where
  "run_plain = \<lparr> run_html_url = ''https://github.com/o/r/actions/runs/42'', run_number = 14,
                 repository_html_url = ''https://github.com/o/r'', repository_full_name = ''o/r'',
                 head_branch = ''main'', created_at = 0, updated_at = 90000,
                 pull_requests = [] \<rparr>"

definition run_with_prs :: workflow_run where
  "run_with_prs = run_plain \<lparr> pull_requests := [pr_seven, pr_nine] \<rparr>"

definition commit_abc :: commit where
  "commit_abc = \<lparr> commit_html_url = ''https://github.com/o/r/commit/abcdef012345'',
                  sha = ''abcdef012345'' \<rparr>"

definition push_context :: action_context where
  "push_context = \<lparr> eventName = ''push'', workflow = ''CI'', payload_pull_request = None,
                    GITHUB_ACTOR = Some ''octocat'' \<rparr>"

definition example_inputs :: "string \<Rightarrow> string" where
  "example_inputs input = (if input = ''channel'' then ''#ci''
                           else if input = ''include_jobs'' then ''true'' else '''')"

section \<open>Properties of the duration formatter\<close>

subsection \<open>Printed numbers and trimming\<close>

lemma digit_not_space: "k < 10 \<Longrightarrow> \<not> isWhiteSpace (digit k)"
proof -
  assume "k < 10"
  then have "k \<in> {0, 1, 2, 3, 4, 5, 6, 7, 8, 9}" by auto
  then show ?thesis by (auto simp: digit_def isWhiteSpace_def)
qed

lemma decimal_digit: "n < 10 \<Longrightarrow> decimal n = [digit n]"
  by (subst decimal.simps) simp

lemma decimal_step: "10 \<le> n \<Longrightarrow> decimal n = decimal (n div 10) @ [digit (n mod 10)]"
  by (subst decimal.simps) simp

lemma decimal_not_space: "c \<in> set (decimal n) \<Longrightarrow> \<not> isWhiteSpace c"
proof (induction n rule: decimal.induct)
  case (1 n)
  show ?case
  proof (cases "n < 10")
    case True
    with "1.prems" show ?thesis by (simp add: decimal_digit digit_not_space)
  next
    case False
    with "1.prems" have "c \<in> set (decimal (n div 10)) \<or> c = digit (n mod 10)"
      by (auto simp: decimal_step)
    then show ?thesis using "1.IH" False digit_not_space [of "n mod 10"] by auto
  qed
qed

lemma decimal_nonempty: "decimal n \<noteq> []"
  by (subst decimal.simps) simp

lemma Number_toString_not_space: "c \<in> set (Number_toString v) \<Longrightarrow> \<not> isWhiteSpace c"
  by (auto simp: Number_toString_def decimal_not_space split: if_splits)
    (simp add: isWhiteSpace_def)

lemma Number_toString_nonempty: "Number_toString v \<noteq> []"
  by (simp add: Number_toString_def decimal_nonempty)

lemma dropWhile_no_match: "xs \<noteq> [] \<Longrightarrow> \<not> P (hd xs) \<Longrightarrow> dropWhile P (xs @ ys) = xs @ ys"
  by (cases xs) auto

lemma trim_seconds: "trim (Number_toString v @ ''s'' @ '' '') = Number_toString v @ ''s''"
proof -
  let ?n = "Number_toString v"
  have first: "\<not> isWhiteSpace (hd ?n)"
    using Number_toString_nonempty [of v] Number_toString_not_space [of "hd ?n" v] by simp
  have front: "dropWhile isWhiteSpace (?n @ ''s '') = ?n @ ''s ''"
    using dropWhile_no_match [of ?n isWhiteSpace "''s ''"] Number_toString_nonempty [of v] first
    by simp
  have rear: "dropWhile isWhiteSpace (rev (?n @ ''s '')) = rev (?n @ ''s'')"
    by (simp add: isWhiteSpace_def)
  show ?thesis unfolding trim_def using front rear by simp
qed

lemma format_duration_hidden:
  "format_duration v txt True = (if 0 < v then Number_toString v @ txt @ '' '' else '''')"
  by (simp add: format_duration_def)

subsection \<open>The arithmetic of the sections\<close>

lemma rem_id: "0 \<le> a \<Longrightarrow> a < b \<Longrightarrow> Number_rem a b = a"
  by (cases "a = 0") (auto simp: Number_rem_def)

lemma fmod_id: "0 \<le> x \<Longrightarrow> x < m \<Longrightarrow> Number_fmod x m = x"
proof -
  assume a: "0 \<le> x" "x < m"
  then have "0 \<le> x / m" "x / m < 1" by auto
  then have "\<not> x / m < 0" "\<lfloor>x / m\<rfloor> = 0" by linarith+
  then show ?thesis by (simp add: Number_fmod_def Math_trunc_def)
qed

lemma floor_ms: "\<lfloor>(of_int a :: rat) / 1000 / of_int b\<rfloor> = a div (1000 * b)"
proof -
  have "(of_int a :: rat) / 1000 / of_int b = of_int a / of_int (1000 * b)" by simp
  then show ?thesis by (simp only: floor_divide_of_int_eq)
qed

lemma delta_step:
  "(of_int a :: rat) / 1000 - of_int (a div (1000 * b)) * of_int b =
   of_int (a mod (1000 * b)) / 1000"
proof -
  have "a = (a div (1000 * b)) * (1000 * b) + a mod (1000 * b)"
    by (rule div_mult_mod_eq [symmetric])
  then have "(of_int a :: rat) = of_int ((a div (1000 * b)) * (1000 * b) + a mod (1000 * b))"
    by simp
  then have "(of_int a :: rat) =
      of_int (a div (1000 * b)) * (1000 * of_int b) + of_int (a mod (1000 * b))"
    by simp
  then show ?thesis by (simp add: field_simps)
qed

lemma div_less_bound:
  fixes r :: int
  assumes "0 < m" and "r < k * m"
  shows "r div m < k"
proof (rule ccontr)
  assume "\<not> r div m < k"
  then have "k \<le> r div m" by simp
  then have "k * m \<le> r div m * m" using assms(1) by (simp add: mult_right_mono)
  moreover have "r = r div m * m + r mod m" by (rule div_mult_mod_eq [symmetric])
  moreover have "0 \<le> r mod m" using assms(1) by simp
  ultimately show False using assms(2) by linarith
qed

lemma mod_div_swap:
  fixes a :: int
  assumes "0 < b" and "0 < c"
  shows "a mod (b * c) div b = a div b mod c"
proof -
  have "a mod (b * c) = b * (a div b mod c) + a mod b"
    using assms by (simp add: zmod_zmult2_eq)
  moreover have "(b * (a div b mod c) + a mod b) div b = a div b mod c"
    using assms by simp
  ultimately show ?thesis by simp
qed

lemma div_by_thousand:
  fixes d :: int
  assumes "0 \<le> c"
  shows "d div (1000 * c) = d div 1000 div c"
  using assms by (rule zdiv_zmult2_eq)

text \<open>The four sections in terms of the elapsed milliseconds, for any sign of the duration.\<close>

lemma computeDuration_sections:
  "computeDuration start end' =
     format_duration ((end' - start) div 86400000) ''d'' True @
     format_duration ((end' - start) mod 86400000 div 3600000) ''h'' True @
     format_duration ((end' - start) mod 3600000 div 60000) ''m'' True @
     Number_toString ((end' - start) mod 60000 div 1000) @ ''s''"
proof -
  define d where "d = end' - start"
  define delta0 where "delta0 = (of_int d :: rat) / 1000"
  define days where "days = \<lfloor>delta0 / 86400\<rfloor>"
  define delta1 where "delta1 = delta0 - of_int days * 86400"
  define hours where "hours = Number_rem \<lfloor>delta1 / 3600\<rfloor> 24"
  define delta2 where "delta2 = delta1 - of_int hours * 3600"
  define minutes where "minutes = Number_rem \<lfloor>delta2 / 60\<rfloor> 60"
  define delta3 where "delta3 = delta2 - of_int minutes * 60"
  define seconds where "seconds = \<lfloor>Number_fmod delta3 60\<rfloor>"
  have days: "days = d div 86400000"
    using floor_ms [of d 86400] by (simp add: days_def delta0_def)
  have delta1: "delta1 = of_int (d mod 86400000) / 1000"
    using delta_step [of d 86400] by (simp add: delta1_def delta0_def days)
  have "\<lfloor>delta1 / 3600\<rfloor> = d mod 86400000 div 3600000"
    using floor_ms [of "d mod 86400000" 3600] by (simp add: delta1)
  moreover have "0 \<le> d mod 86400000 div 3600000" "d mod 86400000 div 3600000 < 24"
    by (simp_all add: pos_imp_zdiv_nonneg_iff div_less_bound)
  ultimately have hours: "hours = d mod 86400000 div 3600000"
    by (simp add: hours_def rem_id)
  have "d mod 86400000 mod 3600000 = d mod 3600000"
    by (rule mod_mod_cancel) simp
  then have delta2: "delta2 = of_int (d mod 3600000) / 1000"
    using delta_step [of "d mod 86400000" 3600] by (simp add: delta2_def delta1 hours)
  have "\<lfloor>delta2 / 60\<rfloor> = d mod 3600000 div 60000"
    using floor_ms [of "d mod 3600000" 60] by (simp add: delta2)
  moreover have "0 \<le> d mod 3600000 div 60000" "d mod 3600000 div 60000 < 60"
    by (simp_all add: pos_imp_zdiv_nonneg_iff div_less_bound)
  ultimately have minutes: "minutes = d mod 3600000 div 60000"
    by (simp add: minutes_def rem_id)
  have "d mod 3600000 mod 60000 = d mod 60000"
    by (rule mod_mod_cancel) simp
  then have delta3: "delta3 = of_int (d mod 60000) / 1000"
    using delta_step [of "d mod 3600000" 60] by (simp add: delta3_def delta2 minutes)
  have "0 \<le> d mod 60000" "d mod 60000 < 60000" by simp_all
  then have "0 \<le> delta3" "delta3 < 60" by (simp_all add: delta3)
  then have fm: "Number_fmod delta3 60 = delta3" by (rule fmod_id)
  have "seconds = \<lfloor>delta3\<rfloor>" unfolding seconds_def fm ..
  also have "delta3 = of_int (d mod 60000) / of_int 1000" unfolding delta3 by simp
  finally have seconds: "seconds = d mod 60000 div 1000"
    by (simp only: floor_divide_of_int_eq)
  have "computeDuration start end' =
          format_duration days ''d'' True @ format_duration hours ''h'' True @
          format_duration minutes ''m'' True @ trim (format_duration seconds ''s'' False)"
    by (simp add: computeDuration_def Let_def d_def delta0_def days_def delta1_def hours_def
        delta2_def minutes_def delta3_def seconds_def)
  also have "trim (format_duration seconds ''s'' False) = Number_toString seconds @ ''s''"
    using trim_seconds [of seconds] by (simp add: format_duration_def)
  finally show ?thesis by (simp add: days hours minutes seconds d_def)
qed

lemma sections_of_total:
  fixes d :: int
  shows "d div 86400000 = d div 1000 div 86400"
    and "d mod 86400000 div 3600000 = d div 1000 div 3600 mod 24"
    and "d mod 3600000 div 60000 = d div 1000 div 60 mod 60"
    and "d mod 60000 div 1000 = d div 1000 mod 60"
proof -
  have "d div 86400000 = d div (1000 * 86400)" by simp
  also have "\<dots> = d div 1000 div 86400" by (rule div_by_thousand) simp
  finally show "d div 86400000 = d div 1000 div 86400" .
  have "d mod 86400000 div 3600000 = d mod (3600000 * 24) div 3600000" by simp
  also have "\<dots> = d div 3600000 mod 24" by (rule mod_div_swap) simp_all
  also have "d div 3600000 = d div (1000 * 3600)" by simp
  also have "\<dots> = d div 1000 div 3600" by (rule div_by_thousand) simp
  finally show "d mod 86400000 div 3600000 = d div 1000 div 3600 mod 24" .
  have "d mod 3600000 div 60000 = d mod (60000 * 60) div 60000" by simp
  also have "\<dots> = d div 60000 mod 60" by (rule mod_div_swap) simp_all
  also have "d div 60000 = d div (1000 * 60)" by simp
  also have "\<dots> = d div 1000 div 60" by (rule div_by_thousand) simp
  finally show "d mod 3600000 div 60000 = d div 1000 div 60 mod 60" .
  have "d mod 60000 div 1000 = d mod (1000 * 60) div 1000" by simp
  also have "\<dots> = d div 1000 mod 60" by (rule mod_div_swap) simp_all
  finally show "d mod 60000 div 1000 = d div 1000 mod 60" .
qed

text \<open>The formatter in terms of the whole elapsed seconds, rounded down.\<close>

lemma computeDuration_total:
  "computeDuration s e =
        (let total = (e - s) div 1000;
             days = total div 86400;
             hours = total div 3600 mod 24;
             minutes = total div 60 mod 60;
             seconds = total mod 60
         in (if 0 < days then Number_toString days @ ''d '' else '''') @
            (if 0 < hours then Number_toString hours @ ''h '' else '''') @
            (if 0 < minutes then Number_toString minutes @ ''m '' else '''') @
            Number_toString seconds @ ''s'')"
  unfolding computeDuration_sections [of s e] format_duration_hidden sections_of_total Let_def
  by (simp only: append_assoc append_Cons append_Nil)

text \<open>When the end lies before the start, the day count is negative and its section is
  hidden; the other sections are those of the duration reduced modulo one day.\<close>

lemma computeDuration_wrapped:
  assumes "e < s"
  shows "computeDuration s e =
        (let total = (e - s) mod 86400000 div 1000;
             hours = total div 3600;
             minutes = total div 60 mod 60;
             seconds = total mod 60
         in (if 0 < hours then Number_toString hours @ ''h '' else '''') @
            (if 0 < minutes then Number_toString minutes @ ''m '' else '''') @
            Number_toString seconds @ ''s'')"
proof -
  define d where "d = e - s"
  define r where "r = d mod 86400000"
  have "d div 86400000 < 0"
    using assms by (simp add: d_def div_neg_pos_less0)
  then have days: "format_duration (d div 86400000) ''d'' True = ''''"
    by (simp add: format_duration_hidden)
  have "r div 3600000 = r div (1000 * 3600)" by simp
  also have "\<dots> = r div 1000 div 3600" by (rule div_by_thousand) simp
  finally have hours: "d mod 86400000 div 3600000 = r div 1000 div 3600"
    unfolding r_def .
  have "d mod 3600000 = r mod 3600000"
    unfolding r_def by (rule mod_mod_cancel [symmetric]) simp
  then have minutes: "d mod 3600000 div 60000 = r div 1000 div 60 mod 60"
    by (simp only: sections_of_total(3))
  have "d mod 60000 = r mod 60000"
    unfolding r_def by (rule mod_mod_cancel [symmetric]) simp
  then have seconds: "d mod 60000 div 1000 = r div 1000 mod 60"
    by (simp only: sections_of_total(4))
  have "computeDuration s e =
          format_duration (r div 1000 div 3600) ''h'' True @
          format_duration (r div 1000 div 60 mod 60) ''m'' True @
          Number_toString (r div 1000 mod 60) @ ''s''"
    unfolding computeDuration_sections [of s e] d_def [symmetric] days hours minutes seconds
    by (simp only: append_Nil)
  then show ?thesis
    unfolding format_duration_hidden Let_def r_def d_def
    by (simp only: append_assoc append_Cons append_Nil)
qed

subsection \<open>Durations that are not negative\<close>

text \<open>
  Claim C3. For valid dates at most \<open>2^53\<close> milliseconds apart, with the end not before the
  start, the formatter works on the whole elapsed seconds (sub-second precision is cut
  off). The days, hours and minutes sections appear only when their value is positive, the
  seconds section always appears, the sections are separated by single spaces and nothing
  follows the final \<open>s\<close>. A duration of 0 seconds gives \<open>0s\<close>, 65 seconds \<open>1m 5s\<close>,
  59 seconds and 59.999 seconds \<open>59s\<close>, and 90061 seconds \<open>1d 1h 1m 1s\<close>.
\<close>

theorem computeDuration_nonnegative:
  "validDate start \<and> validDate end' \<and> start \<le> end' \<and> end' - start \<le> maxSafeDuration \<longrightarrow>
      computeDuration start end' =
        (let total = (end' - start) div 1000;
             days = total div 86400;
             hours = total div 3600 mod 24;
             minutes = total div 60 mod 60;
             seconds = total mod 60
         in (if 0 < days then Number_toString days @ ''d '' else '''') @
            (if 0 < hours then Number_toString hours @ ''h '' else '''') @
            (if 0 < minutes then Number_toString minutes @ ''m '' else '''') @
            Number_toString seconds @ ''s'') \<and>
      (end' - start = 0 \<longrightarrow> computeDuration start end' = ''0s'') \<and>
      (end' - start = 65000 \<longrightarrow> computeDuration start end' = ''1m 5s'') \<and>
      (end' - start = 59000 \<longrightarrow> computeDuration start end' = ''59s'') \<and>
      (end' - start = 59999 \<longrightarrow> computeDuration start end' = ''59s'') \<and>
      (end' - start = 90061000 \<longrightarrow> computeDuration start end' = ''1d 1h 1m 1s'')"
proof (intro conjI impI)
  show "computeDuration start end' = ''0s''" if "end' - start = 0"
    by (simp add: computeDuration_total [of start end'] that Number_toString_def decimal_digit
        digit_def)
  show "computeDuration start end' = ''1m 5s''" if "end' - start = 65000"
    by (simp add: computeDuration_total [of start end'] that Number_toString_def decimal_digit
        digit_def)
  show "computeDuration start end' = ''59s''" if "end' - start = 59000"
    by (simp add: computeDuration_total [of start end'] that Number_toString_def decimal_digit
        decimal_step digit_def)
  show "computeDuration start end' = ''59s''" if "end' - start = 59999"
    by (simp add: computeDuration_total [of start end'] that Number_toString_def decimal_digit
        decimal_step digit_def)
  show "computeDuration start end' = ''1d 1h 1m 1s''" if "end' - start = 90061000"
    by (simp add: computeDuration_total [of start end'] that Number_toString_def decimal_digit
        digit_def)
qed (rule computeDuration_total)

theorem computeDuration_nonnegative_witness:
  "validDate 1700000000000 \<and> validDate 1700003725500 \<and>
   (1700000000000::int) \<le> 1700003725500 \<and>
   1700003725500 - 1700000000000 \<le> maxSafeDuration \<and>
   computeDuration 1700000000000 1700003725500 = ''1h 2m 5s'' \<and>
   computeDuration 1700000000000 1700000000000 = ''0s'' \<and>
   computeDuration 1700000000000 1700000065000 = ''1m 5s'' \<and>
   computeDuration 1700000000000 1700000059000 = ''59s'' \<and>
   computeDuration 1700000000000 1700000059999 = ''59s'' \<and>
   computeDuration 1700000000000 1700090061000 = ''1d 1h 1m 1s''"
proof -
  have range: "validDate 1700000000000 \<and> validDate 1700003725500 \<and>
      (1700000000000::int) \<le> 1700003725500 \<and>
      1700003725500 - 1700000000000 \<le> maxSafeDuration"
    by (simp add: validDate_def maxSafeDuration_def)
  have "computeDuration 1700000000000 1700003725500 =
        (let total = (1700003725500 - 1700000000000) div 1000;
             days = total div 86400;
             hours = total div 3600 mod 24;
             minutes = total div 60 mod 60;
             seconds = total mod 60
         in (if 0 < days then Number_toString days @ ''d '' else '''') @
            (if 0 < hours then Number_toString hours @ ''h '' else '''') @
            (if 0 < minutes then Number_toString minutes @ ''m '' else '''') @
            Number_toString seconds @ ''s'')"
    using computeDuration_nonnegative [of 1700000000000 1700003725500, THEN mp, OF range]
    by (rule conjunct1)
  then have general: "computeDuration 1700000000000 1700003725500 = ''1h 2m 5s''"
    by (simp add: Number_toString_def decimal_digit digit_def)
  have r0: "validDate 1700000000000 \<and> validDate 1700000000000 \<and>
      (1700000000000::int) \<le> 1700000000000 \<and>
      1700000000000 - 1700000000000 \<le> maxSafeDuration"
    by (simp add: validDate_def maxSafeDuration_def)
  have d0: "1700000000000 - 1700000000000 = (0::int)" by simp
  have zero: "computeDuration 1700000000000 1700000000000 = ''0s''"
    using computeDuration_nonnegative [of 1700000000000 1700000000000, THEN mp, OF r0,
        THEN conjunct2, THEN conjunct1, THEN mp, OF d0] .
  have r1: "validDate 1700000000000 \<and> validDate 1700000065000 \<and>
      (1700000000000::int) \<le> 1700000065000 \<and>
      1700000065000 - 1700000000000 \<le> maxSafeDuration"
    by (simp add: validDate_def maxSafeDuration_def)
  have d1: "1700000065000 - 1700000000000 = (65000::int)" by simp
  have minute: "computeDuration 1700000000000 1700000065000 = ''1m 5s''"
    using computeDuration_nonnegative [of 1700000000000 1700000065000, THEN mp, OF r1,
        THEN conjunct2, THEN conjunct2, THEN conjunct1, THEN mp, OF d1] .
  have r2: "validDate 1700000000000 \<and> validDate 1700000059000 \<and>
      (1700000000000::int) \<le> 1700000059000 \<and>
      1700000059000 - 1700000000000 \<le> maxSafeDuration"
    by (simp add: validDate_def maxSafeDuration_def)
  have d2: "1700000059000 - 1700000000000 = (59000::int)" by simp
  have whole: "computeDuration 1700000000000 1700000059000 = ''59s''"
    using computeDuration_nonnegative [of 1700000000000 1700000059000, THEN mp, OF r2,
        THEN conjunct2, THEN conjunct2, THEN conjunct2, THEN conjunct1, THEN mp, OF d2] .
  have r3: "validDate 1700000000000 \<and> validDate 1700000059999 \<and>
      (1700000000000::int) \<le> 1700000059999 \<and>
      1700000059999 - 1700000000000 \<le> maxSafeDuration"
    by (simp add: validDate_def maxSafeDuration_def)
  have d3: "1700000059999 - 1700000000000 = (59999::int)" by simp
  have cut: "computeDuration 1700000000000 1700000059999 = ''59s''"
    using computeDuration_nonnegative [of 1700000000000 1700000059999, THEN mp, OF r3,
        THEN conjunct2, THEN conjunct2, THEN conjunct2, THEN conjunct2, THEN conjunct1,
        THEN mp, OF d3] .
  have r4: "validDate 1700000000000 \<and> validDate 1700090061000 \<and>
      (1700000000000::int) \<le> 1700090061000 \<and>
      1700090061000 - 1700000000000 \<le> maxSafeDuration"
    by (simp add: validDate_def maxSafeDuration_def)
  have d4: "1700090061000 - 1700000000000 = (90061000::int)" by simp
  have day: "computeDuration 1700000000000 1700090061000 = ''1d 1h 1m 1s''"
    using computeDuration_nonnegative [of 1700000000000 1700090061000, THEN mp, OF r4,
        THEN conjunct2, THEN conjunct2, THEN conjunct2, THEN conjunct2, THEN conjunct2,
        THEN mp, OF d4] .
  from range general zero minute whole cut day show ?thesis
    by (intro conjI) (simp_all only:)
qed

subsection \<open>Durations that are negative\<close>

text \<open>
  The statement that a duration of minus 5 seconds is rendered as \<open>-5s\<close> does not hold:
  \<open>Math.floor\<close> rounds the day count down to minus one, and the remaining sections count
  up from there. The two time values are valid and 5000 milliseconds apart.
\<close>

theorem computeDuration_negative_counterexample:
  "validDate 5000 \<and> validDate 0 \<and> (5000::int) - 0 \<le> maxSafeDuration \<and>
   computeDuration 5000 0 = ''23h 59m 55s'' \<and> computeDuration 5000 0 \<noteq> ''-5s''"
  by (simp add: validDate_def maxSafeDuration_def computeDuration_wrapped Number_toString_def
      decimal_digit decimal_step digit_def)

text \<open>
  Claim C4, amended. For valid dates at most \<open>2^53\<close> milliseconds apart, with the end before
  the start, the day count is negative and its section is hidden; the hours, minutes and
  seconds sections are those of the duration reduced modulo one day, so none of them is
  negative and the seconds section never carries a minus sign. A duration of minus
  5 seconds gives \<open>23h 59m 55s\<close>.
\<close>

theorem computeDuration_negative:
  "validDate start \<and> validDate end' \<and> end' < start \<and> start - end' \<le> maxSafeDuration \<longrightarrow>
      (end' - start) div 86400000 < 0 \<and>
      0 \<le> (end' - start) mod 86400000 div 1000 mod 60 \<and>
      computeDuration start end' =
        (let total = (end' - start) mod 86400000 div 1000;
             hours = total div 3600;
             minutes = total div 60 mod 60;
             seconds = total mod 60
         in (if 0 < hours then Number_toString hours @ ''h '' else '''') @
            (if 0 < minutes then Number_toString minutes @ ''m '' else '''') @
            Number_toString seconds @ ''s'') \<and>
      (start - end' = 5000 \<longrightarrow> computeDuration start end' = ''23h 59m 55s'')"
proof (intro conjI impI)
  assume range: "validDate start \<and> validDate end' \<and> end' < start \<and>
    start - end' \<le> maxSafeDuration"
  then have before: "end' < start" by simp
  show "(end' - start) div 86400000 < 0"
    using before by (simp add: div_neg_pos_less0)
  show "0 \<le> (end' - start) mod 86400000 div 1000 mod 60"
    by simp
  show "computeDuration start end' =
        (let total = (end' - start) mod 86400000 div 1000;
             hours = total div 3600;
             minutes = total div 60 mod 60;
             seconds = total mod 60
         in (if 0 < hours then Number_toString hours @ ''h '' else '''') @
            (if 0 < minutes then Number_toString minutes @ ''m '' else '''') @
            Number_toString seconds @ ''s'')"
    using before by (rule computeDuration_wrapped)
  show "computeDuration start end' = ''23h 59m 55s''" if "start - end' = 5000"
  proof -
    from that have "end' - start = - 5000" by simp
    then show ?thesis
      by (simp add: computeDuration_wrapped [OF before] Number_toString_def decimal_digit
          decimal_step digit_def)
  qed
qed

theorem computeDuration_negative_witness:
  "validDate 1700086401000 \<and> validDate 1700000000000 \<and>
   (1700000000000::int) < 1700086401000 \<and>
   1700086401000 - 1700000000000 \<le> maxSafeDuration \<and>
   computeDuration 1700086401000 1700000000000 = ''23h 59m 59s'' \<and>
   computeDuration 1700000005000 1700000000000 = ''23h 59m 55s''"
proof -
  have range: "validDate 1700086401000 \<and> validDate 1700000000000 \<and>
      (1700000000000::int) < 1700086401000 \<and>
      1700086401000 - 1700000000000 \<le> maxSafeDuration"
    by (simp add: validDate_def maxSafeDuration_def)
  have "computeDuration 1700086401000 1700000000000 =
        (let total = (1700000000000 - 1700086401000) mod 86400000 div 1000;
             hours = total div 3600;
             minutes = total div 60 mod 60;
             seconds = total mod 60
         in (if 0 < hours then Number_toString hours @ ''h '' else '''') @
            (if 0 < minutes then Number_toString minutes @ ''m '' else '''') @
            Number_toString seconds @ ''s'')"
    using computeDuration_negative [of 1700086401000 1700000000000, THEN mp, OF range,
        THEN conjunct2, THEN conjunct2, THEN conjunct1] .
  then have general: "computeDuration 1700086401000 1700000000000 = ''23h 59m 59s''"
    by (simp add: Number_toString_def decimal_digit decimal_step digit_def)
  have r5: "validDate 1700000005000 \<and> validDate 1700000000000 \<and>
      (1700000000000::int) < 1700000005000 \<and>
      1700000005000 - 1700000000000 \<le> maxSafeDuration"
    by (simp add: validDate_def maxSafeDuration_def)
  have d5: "1700000005000 - 1700000000000 = (5000::int)" by simp
  have five: "computeDuration 1700000005000 1700000000000 = ''23h 59m 55s''"
    using computeDuration_negative [of 1700000005000 1700000000000, THEN mp, OF r5,
        THEN conjunct2, THEN conjunct2, THEN conjunct2, THEN mp, OF d5] .
  from range general five show ?thesis
    by (intro conjI) (simp_all only:)
qed

section \<open>Properties of the status aggregation and of the job fields\<close>

lemma resultColor_cases:
  "resultColor includeJobs jobs =
     (if \<forall>job \<in> set (completedJobs jobs).
           conclusion job = ''success'' \<or> conclusion job = ''skipped''
      then Good
      else if \<exists>job \<in> set (completedJobs jobs). conclusion job = ''cancelled'' then Warning
      else Danger)"
  by (simp add: resultColor_def colorAndFields_def list_all_iff list_ex_iff)

lemma Danger_nonempty: "resultColor includeJobs jobs = Danger \<Longrightarrow> completedJobs jobs \<noteq> []"
  by (auto simp: resultColor_cases split: if_splits)

text \<open>\<open>jobFields\<close> for every value of the \<open>include_jobs\<close> input, also one outside the three
  the type \<open>IncludeJobs\<close> names.\<close>

lemma jobFields_cases:
  "jobFields includeJobs jobs =
     (if includeJobs = ''false'' \<or>
         (includeJobs = ''on-failure'' \<and> resultColor includeJobs jobs \<noteq> Danger)
      then [] else map jobField (completedJobs jobs))"
  by (auto simp: jobFields_def Let_def colorAndFields_def resultColor_def)

lemma jobFields_entries:
  "set (jobFields includeJobs jobs) \<subseteq> jobField ` set (completedJobs jobs)"
  by (auto simp: jobFields_cases)

lemma completedJobs_example:
  "completedJobs [job_build, job_docs, job_lint, job_notify, job_test] =
     [job_build, job_lint, job_test]"
  by (simp add: completedJobs_def job_build_def job_docs_def job_lint_def job_notify_def
      job_test_def)

lemma jobIcon_own:
  "jobIcon ''success'' = check_mark"
  "jobIcon ''cancelled'' = circle_backslash"
  "jobIcon ''skipped'' = ballot_x"
  by (simp_all add: jobIcon_def statusIcons_get_def statusIcons_def check_mark_def
      circle_backslash_def ballot_x_def)

lemma jobIcon_default:
  assumes "c \<notin> {''success'', ''cancelled'', ''skipped''}" and "c \<notin> set inheritedNames"
  shows "jobIcon c = ballot_x"
proof -
  have "map_of statusIcons c = None"
    using assms(1) by (simp add: statusIcons_def)
  moreover have "map_of Object_prototype c = None"
    using assms(2) by (simp add: inheritedNames_def map_of_eq_None_iff)
  ultimately show ?thesis by (simp add: jobIcon_def statusIcons_get_def)
qed

text \<open>An inherited name reaches the entry as the text of the inherited value.\<close>

lemma jobIcon_inherited: "jobIcon ''constructor'' = ''function Object() { [native code] }''"
  by (simp add: jobIcon_def statusIcons_get_def statusIcons_def Object_prototype_def
      nativeFunction_def)

lemma failure_not_inherited: "''failure'' \<notin> set inheritedNames"
  by (simp add: inheritedNames_def Object_prototype_def)

text \<open>
  Claim C1. Over the jobs that are completed and not skipped, the colour is \<open>Good\<close> when
  every conclusion is \<open>success\<close> or \<open>skipped\<close>, otherwise \<open>Warning\<close> when some conclusion is
  \<open>cancelled\<close>, otherwise \<open>Danger\<close>. An empty filtered list gives \<open>Good\<close>. The result is
  always one of the three levels, whatever the conclusions are.
\<close>

theorem status_aggregation:
  "resultColor includeJobs jobs =
     (if \<forall>job \<in> set (completedJobs jobs). conclusion job \<in> {''success'', ''skipped''}
      then Good
      else if \<exists>job \<in> set (completedJobs jobs). conclusion job = ''cancelled'' then Warning
      else Danger) \<and>
   (completedJobs jobs = [] \<longrightarrow> resultColor includeJobs jobs = Good) \<and>
   resultColor includeJobs jobs \<in> {Good, Warning, Danger}"
proof (intro conjI impI)
  show "resultColor includeJobs jobs =
     (if \<forall>job \<in> set (completedJobs jobs). conclusion job \<in> {''success'', ''skipped''}
      then Good
      else if \<exists>job \<in> set (completedJobs jobs). conclusion job = ''cancelled'' then Warning
      else Danger)"
    by (simp add: resultColor_cases)
  show "resultColor includeJobs jobs = Good" if "completedJobs jobs = []"
    using that by (simp add: resultColor_cases)
  show "resultColor includeJobs jobs \<in> {Good, Warning, Danger}"
    by (cases "resultColor includeJobs jobs") simp_all
qed

theorem status_aggregation_witness:
  "completedJobs [job_docs, job_notify] = [] \<and>
   resultColor ''true'' [job_docs, job_notify] = Good \<and>
   resultColor ''true'' [job_build, job_docs] = Good \<and>
   resultColor ''true'' [job_build, job_lint] = Warning \<and>
   resultColor ''true'' [job_build, job_test] = Danger \<and>
   resultColor ''true'' [job_lint, job_test] = Warning"
proof -
  have "completedJobs [job_docs, job_notify] = []"
    by (simp add: completedJobs_def job_docs_def job_notify_def)
  moreover have "resultColor ''true'' [job_docs, job_notify] = Good"
    using status_aggregation [of "''true''" "[job_docs, job_notify]"] calculation by simp
  moreover have "resultColor ''true'' [job_build, job_docs] = Good"
    using status_aggregation [of "''true''" "[job_build, job_docs]"]
    by (simp add: completedJobs_def job_build_def job_docs_def)
  moreover have "resultColor ''true'' [job_build, job_lint] = Warning"
    using status_aggregation [of "''true''" "[job_build, job_lint]"]
    by (simp add: completedJobs_def job_build_def job_lint_def)
  moreover have "resultColor ''true'' [job_build, job_test] = Danger"
    using status_aggregation [of "''true''" "[job_build, job_test]"]
    by (simp add: completedJobs_def job_build_def job_test_def)
  moreover have "resultColor ''true'' [job_lint, job_test] = Warning"
    using status_aggregation [of "''true''" "[job_lint, job_test]"]
    by (simp add: completedJobs_def job_lint_def job_test_def)
  ultimately show ?thesis by simp
qed

text \<open>
  Claim C2. The source spells the three policies as the values \<open>false\<close> (never),
  \<open>on-failure\<close> and \<open>true\<close> (always) of the \<open>include_jobs\<close> input. With \<open>false\<close> the
  job fields are empty. With \<open>on-failure\<close> they hold one entry per filtered job when the
  colour is \<open>Danger\<close> and are empty for \<open>Good\<close> and \<open>Warning\<close>; they are non-empty exactly
  when the colour is \<open>Danger\<close>. With \<open>true\<close> they hold one entry per filtered job, so they
  are non-empty whenever a filtered job exists.
\<close>

theorem job_inclusion_policy:
  "jobFields ''false'' jobs = [] \<and>
   jobFields ''on-failure'' jobs =
     (if resultColor ''on-failure'' jobs = Danger then map jobField (completedJobs jobs)
      else []) \<and>
   (jobFields ''on-failure'' jobs \<noteq> [] \<longleftrightarrow> resultColor ''on-failure'' jobs = Danger) \<and>
   jobFields ''true'' jobs = map jobField (completedJobs jobs) \<and>
   (completedJobs jobs \<noteq> [] \<longrightarrow> jobFields ''true'' jobs \<noteq> [])"
  using Danger_nonempty [of "''on-failure''" jobs]
  by (simp add: jobFields_cases)

theorem job_inclusion_policy_witness:
  "resultColor ''on-failure'' [job_build, job_test] = Danger \<and>
   jobFields ''on-failure'' [job_build, job_test] = [jobField job_build, jobField job_test] \<and>
   resultColor ''on-failure'' [job_build, job_lint] = Warning \<and>
   jobFields ''on-failure'' [job_build, job_lint] = [] \<and>
   completedJobs [job_build, job_docs] \<noteq> [] \<and>
   jobFields ''true'' [job_build, job_docs] = [jobField job_build]"
proof -
  have c1: "completedJobs [job_build, job_test] = [job_build, job_test]"
    by (simp add: completedJobs_def job_build_def job_test_def)
  have c2: "completedJobs [job_build, job_lint] = [job_build, job_lint]"
    by (simp add: completedJobs_def job_build_def job_lint_def)
  have c3: "completedJobs [job_build, job_docs] = [job_build]"
    by (simp add: completedJobs_def job_build_def job_docs_def)
  have d: "resultColor ''on-failure'' [job_build, job_test] = Danger"
    by (simp add: resultColor_cases c1) (simp add: job_build_def job_test_def)
  have w: "resultColor ''on-failure'' [job_build, job_lint] = Warning"
    by (simp add: resultColor_cases c2) (simp add: job_build_def job_lint_def)
  show ?thesis
    using job_inclusion_policy [of "[job_build, job_test]"]
      job_inclusion_policy [of "[job_build, job_lint]"]
      job_inclusion_policy [of "[job_build, job_docs]"]
    by (simp add: c1 c2 c3 d w)
qed

text \<open>
  Claim C8. The job fields are either empty or hold exactly one entry per job whose status
  is \<open>completed\<close> and whose conclusion is not \<open>skipped\<close>, in the order in which the jobs
  were fetched.
\<close>

theorem jobFields_invariant:
  "jobFields includeJobs jobs = [] \<or>
   jobFields includeJobs jobs =
     map jobField
       (filter (\<lambda>job. status job = ''completed'' \<and> conclusion job \<noteq> ''skipped'') jobs)"
  by (simp add: jobFields_cases completedJobs_def)

theorem jobFields_invariant_witness:
  "jobFields ''true'' [job_build, job_docs, job_lint, job_notify, job_test] =
     [jobField job_build, jobField job_lint, jobField job_test] \<and>
   jobFields ''false'' [job_build, job_docs, job_lint, job_notify, job_test] = []"
  using jobFields_invariant [of "''true''" "[job_build, job_docs, job_lint, job_notify, job_test]"]
    jobFields_invariant [of "''false''" "[job_build, job_docs, job_lint, job_notify, job_test]"]
  by (simp add: jobFields_cases completedJobs_example)

text \<open>
  The entry text does not have the form icon, space, job link, parenthesised duration with
  nothing between the link and the parenthesis: the template literal of line 130 puts a
  space there.
\<close>

theorem job_field_format_counterexample:
  "jobField job_build \<in> set (jobFields ''true'' [job_build]) \<and>
   field_value (jobField job_build) \<noteq>
     jobIcon (conclusion job_build) @ '' '' @
     (''<'' @ job_html_url job_build @ ''|'' @ job_name job_build @ ''>'') @
     ''('' @ computeDuration (started_at job_build) (completed_at job_build) @ '')''"
  by (simp add: jobFields_cases completedJobs_def jobField_def) (simp add: job_build_def)

text \<open>
  Claim C6, amended. The icon is the check mark for \<open>success\<close>, the enclosing circle
  backslash for \<open>cancelled\<close>, the ballot X for \<open>skipped\<close>, and the ballot X for any other
  conclusion that does not name a property inherited from \<open>Object.prototype\<close>
  (\<open>constructor\<close>, \<open>toString\<close> and the others of \<open>inheritedNames\<close>). Every entry of the job
  fields belongs to a completed, non-skipped job, and its value is the icon, a space, the
  job link \<open><url|name>\<close>, a space, and the job's own duration in parentheses:
  \<open>icon <url|name> (duration)\<close>.
\<close>

theorem job_field_format:
  "jobIcon ''success'' = check_mark \<and>
   jobIcon ''cancelled'' = circle_backslash \<and>
   jobIcon ''skipped'' = ballot_x \<and>
   (c \<notin> {''success'', ''cancelled'', ''skipped''} \<and> c \<notin> set inheritedNames \<longrightarrow>
      jobIcon c = ballot_x) \<and>
   (\<forall>entry \<in> set (jobFields includeJobs jobs).
      \<exists>job \<in> set jobs.
        status job = ''completed'' \<and> conclusion job \<noteq> ''skipped'' \<and>
        field_value entry =
          jobIcon (conclusion job) @ '' <'' @ job_html_url job @ ''|'' @ job_name job @
          ''> ('' @ computeDuration (started_at job) (completed_at job) @ '')'')"
proof (intro conjI impI ballI)
  fix entry
  assume "entry \<in> set (jobFields includeJobs jobs)"
  then obtain job where "job \<in> set (completedJobs jobs)" and "entry = jobField job"
    using jobFields_entries [of includeJobs jobs] by blast
  then show "\<exists>job \<in> set jobs.
        status job = ''completed'' \<and> conclusion job \<noteq> ''skipped'' \<and>
        field_value entry =
          jobIcon (conclusion job) @ '' <'' @ job_html_url job @ ''|'' @ job_name job @
          ''> ('' @ computeDuration (started_at job) (completed_at job) @ '')''"
    by (auto simp: completedJobs_def jobField_def)
next
  assume "c \<notin> {''success'', ''cancelled'', ''skipped''} \<and> c \<notin> set inheritedNames"
  then show "jobIcon c = ballot_x" by (simp add: jobIcon_default)
qed (rule jobIcon_own)+

theorem job_field_format_witness:
  "''failure'' \<notin> {''success'', ''cancelled'', ''skipped''} \<and>
   ''failure'' \<notin> set inheritedNames \<and>
   jobIcon ''failure'' = ballot_x \<and>
   jobField job_test \<in> set (jobFields ''true'' [job_docs, job_test]) \<and>
   field_value (jobField job_test) = ballot_x @ '' <https://github.com/o/r/runs/2|test> (59s)''"
proof -
  have icon: "jobIcon ''failure'' = ballot_x"
    using job_field_format [of "''failure''" "''true''" "[job_docs, job_test]"]
      failure_not_inherited by simp
  have listed: "jobField job_test \<in> set (jobFields ''true'' [job_docs, job_test])"
    by (simp add: jobFields_cases completedJobs_def job_test_def job_docs_def)
  have "\<exists>job \<in> set [job_docs, job_test].
        status job = ''completed'' \<and> conclusion job \<noteq> ''skipped'' \<and>
        field_value (jobField job_test) =
          jobIcon (conclusion job) @ '' <'' @ job_html_url job @ ''|'' @ job_name job @
          ''> ('' @ computeDuration (started_at job) (completed_at job) @ '')''"
    using job_field_format [of "''failure''" "''true''" "[job_docs, job_test]"] listed by blast
  then have "field_value (jobField job_test) =
          jobIcon (conclusion job_test) @ '' <'' @ job_html_url job_test @ ''|'' @
          job_name job_test @ ''> ('' @
          computeDuration (started_at job_test) (completed_at job_test) @ '')''"
    by (auto simp: job_docs_def)
  moreover have "conclusion job_test = ''failure''"
    by (simp add: job_test_def)
  ultimately have "field_value (jobField job_test) =
      ballot_x @ '' <https://github.com/o/r/runs/2|test> (59s)''"
    using icon
    by (simp add: job_test_def computeDuration_total Number_toString_def
        decimal_digit decimal_step digit_def)
  with icon listed failure_not_inherited show ?thesis by simp
qed

section \<open>Properties of the title\<close>

lemma pullRequests_Nil: "pull_requests workflowRun = [] \<Longrightarrow> pullRequests ctx workflowRun = []"
  by (simp add: pullRequests_def)

lemma title_default:
  "pull_requests workflowRun = [] \<Longrightarrow>
   title ctx workflowRun c =
     eventName ctx @ '' on '' @ branchUrl workflowRun @ '' '' @ commitUrl c @ [CHR 0x0A]"
  by (simp add: title_def pullRequests_Nil)

lemma title_first:
  "pull_requests workflowRun = pr # rest \<Longrightarrow>
   title ctx workflowRun c =
     ''<'' @ repository_html_url workflowRun @ ''/pull/'' @ Number_toString (pr_number pr) @
     ''|'' @
     (case payload_pull_request ctx of None \<Rightarrow> '''' | Some None \<Rightarrow> '''' | Some (Some t) \<Rightarrow> t) @
     '' #'' @ Number_toString (pr_number pr) @ ''>''"
  by (simp add: title_def pullRequests_def)

text \<open>
  With no associated pull request the title is not exactly the event name, \<open>on\<close>, the
  branch link and the commit link: line 145 ends the default title with a line feed.
\<close>

theorem title_substitution_counterexample:
  "pull_requests run_plain = [] \<and>
   title push_context run_plain commit_abc \<noteq>
     eventName push_context @ '' on '' @ branchUrl run_plain @ '' '' @ commitUrl commit_abc"
  by (simp add: title_def pullRequests_def run_plain_def)

text \<open>
  Claim C5, amended. When the run has no associated pull request, the title is the event
  name, \<open>on\<close>, the branch link and the commit link, separated by single spaces and followed
  by one line feed. When it has some, the title is the formatted title of the first one,
  and the pull requests after the first do not change it.
\<close>

theorem title_substitution:
  "(pull_requests workflowRun = [] \<longrightarrow>
      title ctx workflowRun c =
        eventName ctx @ '' on '' @ branchUrl workflowRun @ '' '' @ commitUrl c @ [CHR 0x0A]) \<and>
   (\<forall>pr rest. pull_requests workflowRun = pr # rest \<longrightarrow>
      title ctx workflowRun c = prs_title (hd (pullRequests ctx workflowRun)) \<and>
      title ctx workflowRun c = title ctx (workflowRun \<lparr> pull_requests := [pr] \<rparr>) c)"
proof (intro conjI impI allI)
  fix pr rest
  assume prs: "pull_requests workflowRun = pr # rest"
  then show "title ctx workflowRun c = prs_title (hd (pullRequests ctx workflowRun))"
    by (simp add: title_def pullRequests_def)
  show "title ctx workflowRun c = title ctx (workflowRun \<lparr> pull_requests := [pr] \<rparr>) c"
    using title_first [OF prs, of ctx c]
      title_first [of "workflowRun \<lparr> pull_requests := [pr] \<rparr>" pr "[]" ctx c]
    by simp
qed (rule title_default)

theorem title_substitution_witness:
  "pull_requests run_plain = [] \<and>
   title push_context run_plain commit_abc =
     ''push on <https://github.com/o/r/tree/main|main> '' @
     ''<https://github.com/o/r/commit/abcdef012345|abcdef >'' @ [CHR 0x0A] \<and>
   pull_requests run_with_prs = pr_seven # [pr_nine] \<and>
   title push_context run_with_prs commit_abc =
     title push_context (run_with_prs \<lparr> pull_requests := [pr_seven] \<rparr>) commit_abc"
proof -
  have none: "pull_requests run_plain = []"
    by (simp add: run_plain_def)
  have two: "pull_requests run_with_prs = pr_seven # [pr_nine]"
    by (simp add: run_with_prs_def)
  have "title push_context run_plain commit_abc =
          eventName push_context @ '' on '' @ branchUrl run_plain @ '' '' @
          commitUrl commit_abc @ [CHR 0x0A]"
    using title_substitution [of run_plain push_context commit_abc] none by blast
  then have "title push_context run_plain commit_abc =
     ''push on <https://github.com/o/r/tree/main|main> '' @
     ''<https://github.com/o/r/commit/abcdef012345|abcdef >'' @ [CHR 0x0A]"
    by (simp add: run_plain_def push_context_def commit_abc_def branchUrl_def commitUrl_def)
  moreover have "title push_context run_with_prs commit_abc =
     title push_context (run_with_prs \<lparr> pull_requests := [pr_seven] \<rparr>) commit_abc"
    using title_substitution [of run_with_prs push_context commit_abc] two by blast
  ultimately show ?thesis using none two by blast
qed

text \<open>
  Claim C10. For a run with associated pull requests, the link text of the title is the
  pull-request title of the triggering event's payload, or the empty string when the
  payload has no pull request or no title, followed by a space and \<open>#number\<close>. The title
  field of the associated pull request itself is not read. So for an event without a pull
  request the part of the link text that stands for the title is empty and the text
  reads \<open> #number\<close>.
\<close>

theorem pull_request_title_source:
  "(\<forall>pr rest. pull_requests workflowRun = pr # rest \<longrightarrow>
      title ctx workflowRun c =
        ''<'' @ repository_html_url workflowRun @ ''/pull/'' @ Number_toString (pr_number pr) @
        ''|'' @
        (case payload_pull_request ctx of
           None \<Rightarrow> '''' | Some None \<Rightarrow> '''' | Some (Some t) \<Rightarrow> t) @
        '' #'' @ Number_toString (pr_number pr) @ ''>'' \<and>
      (payload_pull_request ctx = None \<longrightarrow>
         title ctx workflowRun c =
           ''<'' @ repository_html_url workflowRun @ ''/pull/'' @
           Number_toString (pr_number pr) @ ''| #'' @ Number_toString (pr_number pr) @ ''>'') \<and>
      (\<forall>other.
         title ctx (workflowRun \<lparr> pull_requests := pr \<lparr> pr_title := other \<rparr> # rest \<rparr>) c =
         title ctx workflowRun c))"
proof (intro allI impI conjI)
  fix pr rest other
  assume prs: "pull_requests workflowRun = pr # rest"
  show "title ctx workflowRun c =
        ''<'' @ repository_html_url workflowRun @ ''/pull/'' @ Number_toString (pr_number pr) @
        ''|'' @
        (case payload_pull_request ctx of
           None \<Rightarrow> '''' | Some None \<Rightarrow> '''' | Some (Some t) \<Rightarrow> t) @
        '' #'' @ Number_toString (pr_number pr) @ ''>''"
    using prs by (rule title_first)
  show "title ctx workflowRun c =
           ''<'' @ repository_html_url workflowRun @ ''/pull/'' @
           Number_toString (pr_number pr) @ ''| #'' @ Number_toString (pr_number pr) @ ''>''"
    if "payload_pull_request ctx = None"
    using title_first [OF prs, of ctx c] that by simp
  show "title ctx (workflowRun \<lparr> pull_requests := pr \<lparr> pr_title := other \<rparr> # rest \<rparr>) c =
         title ctx workflowRun c"
    using title_first [OF prs, of ctx c]
      title_first [of "workflowRun \<lparr> pull_requests := pr \<lparr> pr_title := other \<rparr> # rest \<rparr>"
        "pr \<lparr> pr_title := other \<rparr>" rest ctx c]
    by simp
qed

theorem pull_request_title_source_witness:
  "pull_requests run_with_prs = pr_seven # [pr_nine] \<and>
   payload_pull_request push_context = None \<and>
   pr_title pr_seven = ''Add cache'' \<and>
   title push_context run_with_prs commit_abc = ''<https://github.com/o/r/pull/7| #7>''"
  using pull_request_title_source [of run_with_prs push_context commit_abc]
  by (simp add: run_with_prs_def run_plain_def push_context_def pr_seven_def
      Number_toString_def decimal_digit digit_def)

section \<open>Properties of the payload overrides\<close>

text \<open>
  Claim C7. The payload has the key \<open>channel\<close>, \<open>username\<close>, \<open>icon_url\<close> or \<open>icon_emoji\<close>
  only when the corresponding input (\<open>channel\<close>, \<open>name\<close>, \<open>icon_url\<close>, \<open>icon_emoji\<close>) is
  set to a non-empty text, and then with that text as its value. For an input that is
  absent or empty the key is left out: the payload holds no other top-level key from the
  configuration, and no override has the empty string as its value.
\<close>

theorem override_omission:
  "map_of (overrides (slack_payload_body getInput ctx workflowRun c jobs)) ''channel'' =
     (if getInput ''channel'' = '''' then None else Some (getInput ''channel'')) \<and>
   map_of (overrides (slack_payload_body getInput ctx workflowRun c jobs)) ''username'' =
     (if getInput ''name'' = '''' then None else Some (getInput ''name'')) \<and>
   map_of (overrides (slack_payload_body getInput ctx workflowRun c jobs)) ''icon_url'' =
     (if getInput ''icon_url'' = '''' then None else Some (getInput ''icon_url'')) \<and>
   map_of (overrides (slack_payload_body getInput ctx workflowRun c jobs)) ''icon_emoji'' =
     (if getInput ''icon_emoji'' = '''' then None else Some (getInput ''icon_emoji'')) \<and>
   (\<forall>(k, v) \<in> set (overrides (slack_payload_body getInput ctx workflowRun c jobs)).
      k \<in> {''channel'', ''username'', ''icon_url'', ''icon_emoji''} \<and> v \<noteq> '''')"
  by (simp add: slack_payload_body_def nonNullEntries_def slack_def orNull_def)

theorem override_omission_witness:
  "overrides (slack_payload_body example_inputs push_context run_plain commit_abc []) =
     [(''channel'', ''#ci'')] \<and>
   map_of (overrides (slack_payload_body example_inputs push_context run_plain commit_abc []))
     ''username'' = None"
  using override_omission [of example_inputs push_context run_plain commit_abc "[]"]
  by (simp add: slack_payload_body_def nonNullEntries_def slack_def orNull_def
      example_inputs_def)

section \<open>Properties of the error handler\<close>

text \<open>
  Claim C9. For every value that reaches \<open>handleError\<close>, the handler logs it and reports a
  failure. The failure message is the value's own message when the value is truthy and has
  a non-empty message, and \<open>Unhandled Error: \<close> followed by the value's string form in every
  other case. No value passes without a reported failure.
\<close>

theorem handleError_normalization:
  "(\<forall>m. truthy err \<and> message err = Some m \<and> m \<noteq> '''' \<longrightarrow>
        handleError err = [core_error err, core_setFailed m]) \<and>
   (\<not> truthy err \<or> message err = None \<or> message err = Some '''' \<longrightarrow>
        handleError err =
          [core_error err, core_setFailed (''Unhandled Error: '' @ ToString err)]) \<and>
   (\<exists>m. core_setFailed m \<in> set (handleError err))"
  by (auto simp: handleError_def split: option.splits)

theorem handleError_normalization_witness:
  "truthy (JError ''Error'' ''Not Found'') \<and>
   message (JError ''Error'' ''Not Found'') = Some ''Not Found'' \<and>
   handleError (JError ''Error'' ''Not Found'') =
     [core_error (JError ''Error'' ''Not Found''), core_setFailed ''Not Found''] \<and>
   message (JString ''boom'') = None \<and>
   handleError (JString ''boom'') =
     [core_error (JString ''boom''), core_setFailed ''Unhandled Error: boom''] \<and>
   handleError JUndefined =
     [core_error JUndefined, core_setFailed ''Unhandled Error: undefined'']"
  using handleError_normalization [of "JError ''Error'' ''Not Found''"]
    handleError_normalization [of "JString ''boom''"]
    handleError_normalization [of JUndefined]
  by simp

end
